theory Spec2Isabelle
  imports Main
begin

section \<open>The host environment of \<^verbatim>\<open>theme.js\<close>\<close>

text \<open>
  The script reads four capabilities of the browser: the wall clock (\<^verbatim>\<open>new Date()\<close>),
  \<^verbatim>\<open>localStorage\<close>, \<^verbatim>\<open>window.matchMedia\<close> and the timer queue. What the browser answers
  during one run of the script or of an event handler is a \<open>host\<close> record; what persists
  between handlers (the storage contents, the DOM, the module's two variables, the
  listeners, the pending timers) is a \<open>page\<close> record, passed through every function and
  returned updated.

  \<^item> A \<^verbatim>\<open>Date\<close> is its time value, the milliseconds since the epoch in UTC. One run
    reads the clock up to three times, each a \<^verbatim>\<open>new Date()\<close> of its own: \<open>phase_date\<close> is
    what \<^verbatim>\<open>getCurrentPhase\<close> (or the pre-paint path) reads, \<open>now_date\<close> what
    \<^verbatim>\<open>getTimeUntilNextPhase\<close> reads into \<^verbatim>\<open>now\<close>, and \<open>target_date\<close> what it reads next
    into \<^verbatim>\<open>targetTime\<close>. The three may differ.
  \<^item> \<open>localTZA\<close> is the time zone of the browser: the offset of local time from UTC, in
    milliseconds, at a time value that is read as UTC when the flag is true and as local
    time when it is false (the operation of that name in the language standard). It may
    change with the time value, as it does where daylight saving applies.
  \<^item> \<open>loading\<close> says whether \<^verbatim>\<open>document.readyState\<close> is \<^verbatim>\<open>'loading'\<close> when the script runs.
  \<^item> \<open>backend\<close> says how \<^verbatim>\<open>localStorage\<close> behaves: \<open>Available\<close>; \<open>WriteFails\<close>, where
    \<^verbatim>\<open>setItem\<close> throws (quota exceeded, private browsing) and reads still work;
    \<open>Unavailable\<close>, where every access throws (storage disabled).
  \<^item> \<open>dark_query\<close> is \<open>None\<close> when \<^verbatim>\<open>window.matchMedia(...)\<close> throws, and otherwise
    \<open>Some m\<close> with \<open>m\<close> the \<^verbatim>\<open>matches\<close> flag of \<^verbatim>\<open>(prefers-color-scheme: dark)\<close>.
  \<^item> \<open>listener_api\<close> says which subscription method the media query list offers.
\<close>

datatype storage_backend = Available | WriteFails | Unavailable

datatype listener_support = Modern | Legacy | NoListener

datatype js_error = SecurityError | QuotaExceededError | TypeError

record host =
  phase_date :: int
  now_date :: int
  target_date :: int
  localTZA :: "int \<Rightarrow> bool \<Rightarrow> int"
  loading :: bool
  backend :: storage_backend
  dark_query :: "bool option"
  listener_api :: listener_support

text \<open>
  A navigation link: \<open>link_path\<close> is the \<^verbatim>\<open>pathname\<close> of \<^verbatim>\<open>new URL(link.href)\<close>, \<open>None\<close> when
  the constructor throws; \<open>aria_current\<close> is the attribute, \<open>None\<close> when absent.
\<close>

record nav_link =
  link_path :: "string option"
  aria_current :: "string option"

text \<open>
  The page. A root attribute is \<open>None\<close> while it is not set, and \<open>theme_label\<close> is \<open>None\<close>
  when the page has no \<^verbatim>\<open>#theme-label\<close> element, otherwise its text. \<open>has_toggle\<close> says
  whether \<^verbatim>\<open>#theme-toggle\<close> exists, \<open>location_path\<close> is \<^verbatim>\<open>window.location.pathname\<close>,
  \<open>uncaught\<close> records an exception that left \<^verbatim>\<open>initializeTheme\<close>. \<open>dcl_listener\<close> and
  \<open>unload_listener\<close> say whether the script has registered its \<^verbatim>\<open>DOMContentLoaded\<close> and
  its \<^verbatim>\<open>beforeunload\<close> listener. \<open>mediaQuery\<close> says whether the module's variable holds a
  media query list. \<open>timers\<close> is the browser's list of this script's pending one-shot
  timers (handle, delay) and \<open>next_handle\<close> the handle the next \<^verbatim>\<open>setTimeout\<close> returns.
\<close>

record page =
  localStorage :: "string \<rightharpoonup> string"
  data_mode :: "string option"
  data_theme :: "string option"
  data_phase :: "string option"
  theme_label :: "string option"
  has_toggle :: bool
  click_listener :: bool
  change_listener :: bool
  dcl_listener :: bool
  unload_listener :: bool
  location_path :: string
  nav_links :: "nav_link list"
  uncaught :: "js_error option"
  currentTimeout :: "nat option"
  mediaQuery :: bool
  timers :: "(nat \<times> int) list"
  next_handle :: nat

section \<open>Theme configuration\<close>

definition THEME_KEY :: string where
  "THEME_KEY = ''portfolio-theme-mode''"

definition THEME_MODES :: "string list" where
  "THEME_MODES = [''auto'', ''light'', ''dark'']"

section \<open>Dates\<close>

definition MS_PER_HOUR :: int where
  "MS_PER_HOUR = 3600000"

definition MS_PER_DAY :: int where
  "MS_PER_DAY = 86400000"

text \<open>
  Local time of a time value and back, as the language standard defines them from the
  time zone offset. \<open>clock\<close> is the local time that the phase is computed from and
  \<open>nowLocal\<close> the local time of \<^verbatim>\<open>now\<close> in \<^verbatim>\<open>getTimeUntilNextPhase\<close>.
\<close>

definition LocalTime :: "host \<Rightarrow> int \<Rightarrow> int" where
  "LocalTime h t = t + localTZA h t True"

definition UTC :: "host \<Rightarrow> int \<Rightarrow> int" where
  "UTC h t = t - localTZA h t False"

definition clock :: "host \<Rightarrow> int" where
  "clock h = LocalTime h (phase_date h)"


text \<open>\<^verbatim>\<open>getHours\<close> is the hour of the local time.\<close>

definition getHours :: "int \<Rightarrow> int" where
  "getHours t = (t div MS_PER_HOUR) mod 24"

text \<open>
  \<^verbatim>\<open>d.setHours(h, 0, 0, 0)\<close>: the local day of \<^verbatim>\<open>d\<close>, at \<open>h\<close> o'clock sharp local time,
  turned back into a time value.
\<close>

definition setHours :: "host \<Rightarrow> int \<Rightarrow> int \<Rightarrow> int" where
  "setHours h t hr = UTC h (LocalTime h t div MS_PER_DAY * MS_PER_DAY + hr * MS_PER_HOUR)"

text \<open>
  \<^verbatim>\<open>d.setDate(d.getDate() + 1)\<close>: the standard counts the days of a month from its first
  day, so the date after the last one is the first day of the next month, and the call
  yields the same local time of day on the next local day, turned back into a time
  value.
\<close>

definition addDay :: "host \<Rightarrow> int \<Rightarrow> int" where
  "addDay h t = UTC h (LocalTime h t + MS_PER_DAY)"

text \<open>The remainder operator of JavaScript truncates towards zero.\<close>

definition js_rem :: "int \<Rightarrow> int \<Rightarrow> int" where
  "js_rem a b = (if a < 0 then - ((- a) mod \<bar>b\<bar>) else a mod \<bar>b\<bar>)"

section \<open>Phase, stored mode, effective theme\<close>

text \<open>The body of \<^verbatim>\<open>getCurrentPhase\<close> after the hour has been read.\<close>

definition phaseOfHour :: "int \<Rightarrow> string" where
  "phaseOfHour hour =
     (if hour \<ge> 5 \<and> hour < 10 then ''morning''
      else if hour \<ge> 10 \<and> hour < 16 then ''afternoon''
      else if hour \<ge> 16 \<and> hour < 19 then ''evening''
      else ''night'')"

definition getCurrentPhase :: "host \<Rightarrow> string" where
  "getCurrentPhase h = (let hour = getHours (clock h) in phaseOfHour hour)"

definition getItem :: "host \<Rightarrow> page \<Rightarrow> string \<Rightarrow> js_error + string option" where
  "getItem h s key =
     (if backend h = Unavailable then Inl SecurityError else Inr (localStorage s key))"

definition setItem :: "host \<Rightarrow> string \<Rightarrow> string \<Rightarrow> page \<Rightarrow> js_error + page" where
  "setItem h key v s =
     (case backend h of
        Available \<Rightarrow> Inr (s\<lparr>localStorage := (localStorage s)(key \<mapsto> v)\<rparr>)
      | WriteFails \<Rightarrow> Inl QuotaExceededError
      | Unavailable \<Rightarrow> Inl SecurityError)"

text \<open>
  \<^verbatim>\<open>getItem\<close> answers a string or \<^verbatim>\<open>null\<close> (\<open>None\<close>), and \<^verbatim>\<open>THEME_MODES.includes(null)\<close> is
  false.
\<close>

definition getStoredThemeMode :: "host \<Rightarrow> page \<Rightarrow> string" where
  "getStoredThemeMode h s =
     (case getItem h s THEME_KEY of
        Inl e \<Rightarrow> ''auto''
      | Inr stored \<Rightarrow>
          (case stored of
             None \<Rightarrow> ''auto''
           | Some v \<Rightarrow> (if v \<in> set THEME_MODES then v else ''auto'')))"

definition storeThemeMode :: "host \<Rightarrow> string \<Rightarrow> page \<Rightarrow> page" where
  "storeThemeMode h mode s =
     (case setItem h THEME_KEY mode s of Inl e \<Rightarrow> s | Inr s' \<Rightarrow> s')"

definition getSystemTheme :: "host \<Rightarrow> string" where
  "getSystemTheme h =
     (case dark_query h of
        None \<Rightarrow> ''light''
      | Some m \<Rightarrow> (if m then ''dark'' else ''light''))"

definition getEffectiveTheme :: "host \<Rightarrow> string \<Rightarrow> string" where
  "getEffectiveTheme h mode = (if mode = ''auto'' then getSystemTheme h else mode)"

section \<open>Applying the theme\<close>

definition applyTheme :: "host \<Rightarrow> string \<Rightarrow> string \<Rightarrow> page \<Rightarrow> page" where
  "applyTheme h mode phase s =
     (let effectiveTheme = getEffectiveTheme h mode
      in s\<lparr>data_mode := Some mode, data_theme := Some effectiveTheme, data_phase := Some phase\<rparr>)"

text \<open>The bullet U+2022 of the label, as its three UTF-8 bytes.\<close>

definition bullet :: string where
  "bullet = [CHR 0xE2, CHR 0x80, CHR 0xA2]"

definition labelText :: "string \<Rightarrow> string \<Rightarrow> string" where
  "labelText mode phase =
     (if mode = ''auto'' then ''Auto '' @ bullet @ '' '' @ phase
      else if mode = ''light'' then ''Light''
      else if mode = ''dark'' then ''Dark''
      else ''Auto'')"

definition updateThemeLabel :: "string \<Rightarrow> string \<Rightarrow> page \<Rightarrow> page" where
  "updateThemeLabel mode phase s =
     (case theme_label s of
        None \<Rightarrow> s
      | Some old \<Rightarrow> s\<lparr>theme_label := Some (labelText mode phase)\<rparr>)"

definition updateTheme :: "host \<Rightarrow> page \<Rightarrow> page" where
  "updateTheme h s =
     (let mode = getStoredThemeMode h s;
          phase = getCurrentPhase h
      in updateThemeLabel mode phase (applyTheme h mode phase s))"

section \<open>The boundary scheduler\<close>

definition boundaries :: "int list" where
  "boundaries = [5, 10, 16, 19]"

text \<open>
  The value of \<^verbatim>\<open>nextBoundary\<close> after the \<^verbatim>\<open>if (!nextBoundary)\<close>: \<^verbatim>\<open>find\<close> answers
  \<^verbatim>\<open>undefined\<close> (\<open>None\<close>) when no boundary is later, and \<^verbatim>\<open>!\<close> is also true of \<open>0\<close>.
\<close>

definition nextBoundary :: "int \<Rightarrow> int" where
  "nextBoundary currentHour =
     (case find (\<lambda>hour. hour > currentHour) boundaries of
        None \<Rightarrow> boundaries ! 0 + 24
      | Some b \<Rightarrow> (if b = 0 then boundaries ! 0 + 24 else b))"

text \<open>
  The local variable \<^verbatim>\<open>diff\<close> of \<^verbatim>\<open>getTimeUntilNextPhase\<close>: the hour comes from \<^verbatim>\<open>now\<close>,
  the day of the target from the second reading of the clock, and the difference is one
  of time values. The function also reads the minutes and the seconds of \<^verbatim>\<open>now\<close> and
  never uses them.
\<close>

definition phaseDiff :: "host \<Rightarrow> int" where
  "phaseDiff h =
     (let now = now_date h;
          currentHour = getHours (LocalTime h now);
          nb = nextBoundary currentHour;
          targetTime = setHours h (target_date h) (js_rem nb 24);
          targetTime' = (if nb \<ge> 24 then addDay h targetTime else targetTime)
      in targetTime' - now)"

definition getTimeUntilNextPhase :: "host \<Rightarrow> int" where
  "getTimeUntilNextPhase h = max (phaseDiff h) 1000"

definition setTimeout :: "int \<Rightarrow> page \<Rightarrow> nat \<times> page" where
  "setTimeout delay s =
     (next_handle s,
      s\<lparr>timers := timers s @ [(next_handle s, delay)], next_handle := Suc (next_handle s)\<rparr>)"

definition clearTimeout :: "nat \<Rightarrow> page \<Rightarrow> page" where
  "clearTimeout k s = s\<lparr>timers := filter (\<lambda>(k', d). k' \<noteq> k) (timers s)\<rparr>"

text \<open>\<^verbatim>\<open>if (currentTimeout) clearTimeout(currentTimeout)\<close>: \<^verbatim>\<open>null\<close> and \<open>0\<close> are falsy.\<close>

definition clearCurrent :: "page \<Rightarrow> page" where
  "clearCurrent s =
     (case currentTimeout s of
        None \<Rightarrow> s
      | Some k \<Rightarrow> (if k \<noteq> 0 then clearTimeout k s else s))"

definition schedulePhaseUpdate :: "host \<Rightarrow> page \<Rightarrow> page" where
  "schedulePhaseUpdate h s =
     (let s1 = clearCurrent s;
          timeUntilNext = getTimeUntilNextPhase h;
          (k, s2) = setTimeout timeUntilNext s1
      in s2\<lparr>currentTimeout := Some k\<rparr>)"

text \<open>The arrow function handed to \<^verbatim>\<open>setTimeout\<close>.\<close>

definition timerCallback :: "host \<Rightarrow> page \<Rightarrow> page" where
  "timerCallback h s = schedulePhaseUpdate h (updateTheme h s)"

section \<open>Toggle and system preference handlers\<close>

fun indexOf_from :: "string list \<Rightarrow> string \<Rightarrow> int \<Rightarrow> int" where
  "indexOf_from [] x i = - 1"
| "indexOf_from (y # ys) x i = (if y = x then i else indexOf_from ys x (i + 1))"

definition indexOf :: "string list \<Rightarrow> string \<Rightarrow> int" where
  "indexOf xs x = indexOf_from xs x 0"

text \<open>Reading an array at an index: \<^verbatim>\<open>undefined\<close> (\<open>None\<close>) out of range.\<close>

definition js_nth :: "string list \<Rightarrow> int \<Rightarrow> string option" where
  "js_nth xs i = (if 0 \<le> i \<and> i < int (length xs) then Some (xs ! nat i) else None)"

text \<open>\<^verbatim>\<open>setItem\<close> stores the string of its argument.\<close>

definition js_to_string :: "string option \<Rightarrow> string" where
  "js_to_string v = (case v of None \<Rightarrow> ''undefined'' | Some x \<Rightarrow> x)"

definition nextModeOf :: "string \<Rightarrow> string option" where
  "nextModeOf currentMode =
     (let currentIndex = indexOf THEME_MODES currentMode;
          nextIndex = js_rem (currentIndex + 1) (int (length THEME_MODES))
      in js_nth THEME_MODES nextIndex)"

definition handleThemeToggle :: "host \<Rightarrow> page \<Rightarrow> page" where
  "handleThemeToggle h s =
     (let currentMode = getStoredThemeMode h s;
          nextMode = nextModeOf currentMode
      in updateTheme h (storeThemeMode h (js_to_string nextMode) s))"

definition handleSystemThemeChange :: "host \<Rightarrow> page \<Rightarrow> page" where
  "handleSystemThemeChange h s =
     (let currentMode = getStoredThemeMode h s
      in if currentMode = ''auto'' then updateTheme h s else s)"

section \<open>Navigation\<close>

definition endsWith :: "string \<Rightarrow> string \<Rightarrow> bool" where
  "endsWith str suf =
     (length suf \<le> length str \<and> drop (length str - length suf) str = suf)"

fun includes_str :: "string \<Rightarrow> string \<Rightarrow> bool" where
  "includes_str [] sub = (sub = [])"
| "includes_str (c # cs) sub = (take (length sub) (c # cs) = sub \<or> includes_str cs sub)"

text \<open>The condition of the \<^verbatim>\<open>if\<close> in \<^verbatim>\<open>setActiveNavigation\<close>.\<close>

definition isCurrentPage :: "string \<Rightarrow> string \<Rightarrow> bool" where
  "isCurrentPage currentPath linkPath =
     (currentPath = linkPath \<or>
      (currentPath = ''/'' \<and> endsWith linkPath ''/index.html'') \<or>
      (endsWith currentPath ''/index.html'' \<and> linkPath = ''/'') \<or>
      (includes_str currentPath linkPath \<and> linkPath \<noteq> ''/''))"

text \<open>
  The \<^verbatim>\<open>forEach\<close> over the links, in document order. A link whose \<^verbatim>\<open>href\<close> the \<^verbatim>\<open>URL\<close>
  constructor rejects ends the loop with a \<^verbatim>\<open>TypeError\<close>: that link and the ones after it
  stay as they were.
\<close>

fun markLinks :: "string \<Rightarrow> nav_link list \<Rightarrow> nav_link list \<times> js_error option" where
  "markLinks currentPath [] = ([], None)"
| "markLinks currentPath (l # ls) =
     (case link_path l of
        None \<Rightarrow> (l # ls, Some TypeError)
      | Some linkPath \<Rightarrow>
          (let l1 = l\<lparr>aria_current := None\<rparr>;
               l2 = (if isCurrentPage currentPath linkPath
                     then l1\<lparr>aria_current := Some ''page''\<rparr> else l1);
               (ls', e) = markLinks currentPath ls
           in (l2 # ls', e)))"

definition setActiveNavigation :: "page \<Rightarrow> page" where
  "setActiveNavigation s =
     (let (ls, e) = markLinks (location_path s) (nav_links s)
      in s\<lparr>nav_links := ls, uncaught := e\<rparr>)"

section \<open>Initialisation, pre-paint and teardown\<close>

definition subscribe :: "host \<Rightarrow> page \<Rightarrow> page" where
  "subscribe h s =
     (case dark_query h of
        None \<Rightarrow> s
      | Some m \<Rightarrow>
          (let s1 = s\<lparr>mediaQuery := True\<rparr>
           in case listener_api h of
                Modern \<Rightarrow> s1\<lparr>change_listener := True\<rparr>
              | Legacy \<Rightarrow> s1\<lparr>change_listener := True\<rparr>
              | NoListener \<Rightarrow> s1))"

definition initializeTheme :: "host \<Rightarrow> page \<Rightarrow> page" where
  "initializeTheme h s =
     (let s1 = updateTheme h s;
          s2 = (if has_toggle s1 then s1\<lparr>click_listener := True\<rparr> else s1);
          s3 = subscribe h s2;
          s4 = schedulePhaseUpdate h s3
      in setActiveNavigation s4)"

text \<open>\<^verbatim>\<open>prePaintTheme\<close>, with its three local arrow functions.\<close>

definition prePaint_getPhase :: "host \<Rightarrow> string" where
  "prePaint_getPhase h =
     (let hour = getHours (clock h)
      in if hour \<ge> 5 \<and> hour < 10 then ''morning''
         else if hour \<ge> 10 \<and> hour < 16 then ''afternoon''
         else if hour \<ge> 16 \<and> hour < 19 then ''evening''
         else ''night'')"

definition prePaint_getMode :: "host \<Rightarrow> page \<Rightarrow> string" where
  "prePaint_getMode h s =
     (case getItem h s ''portfolio-theme-mode'' of
        Inl e \<Rightarrow> ''auto''
      | Inr stored \<Rightarrow>
          (case stored of
             None \<Rightarrow> ''auto''
           | Some v \<Rightarrow> (if v \<in> set [''auto'', ''light'', ''dark''] then v else ''auto'')))"

definition prePaint_getTheme :: "host \<Rightarrow> string \<Rightarrow> string" where
  "prePaint_getTheme h mode =
     (if mode = ''auto''
      then (case dark_query h of
              None \<Rightarrow> ''light''
            | Some m \<Rightarrow> (if m then ''dark'' else ''light''))
      else mode)"

definition prePaintTheme :: "host \<Rightarrow> page \<Rightarrow> page" where
  "prePaintTheme h s =
     (let mode = prePaint_getMode h s;
          phase = prePaint_getPhase h;
          theme = prePaint_getTheme h mode
      in s\<lparr>data_mode := Some mode, data_theme := Some theme, data_phase := Some phase\<rparr>)"

text \<open>The \<^verbatim>\<open>beforeunload\<close> listener; only the modern API has \<^verbatim>\<open>removeEventListener\<close>.\<close>

definition beforeUnload :: "host \<Rightarrow> page \<Rightarrow> page" where
  "beforeUnload h s =
     (let s1 = clearCurrent s
      in if mediaQuery s1 \<and> listener_api h = Modern
         then s1\<lparr>change_listener := False\<rparr> else s1)"

section \<open>Running the script, and events\<close>

text \<open>
  The body of the script, after its declarations. While the document is loading it
  registers \<^verbatim>\<open>initializeTheme\<close> for \<^verbatim>\<open>DOMContentLoaded\<close> and goes on to register the
  \<^verbatim>\<open>beforeunload\<close> listener. Otherwise it calls \<^verbatim>\<open>initializeTheme\<close> at once, and an
  exception that leaves that call ends the script before the \<^verbatim>\<open>beforeunload\<close> listener
  is registered.
\<close>

definition runScript :: "host \<Rightarrow> page \<Rightarrow> page" where
  "runScript h s =
     (if loading h then s\<lparr>dcl_listener := True, unload_listener := True\<rparr>
      else (let s1 = initializeTheme h s
            in if uncaught s1 = None then s1\<lparr>unload_listener := True\<rparr> else s1))"

text \<open>
  What the browser can deliver to the script after it has run. Every event reaches the
  script only through a listener it has registered. \<^verbatim>\<open>DOMContentLoaded\<close> happens once, so
  its listener is spent when it has run. A timer fires only while it is pending, and the
  browser drops a one-shot timer from its list before it runs the callback.
\<close>

datatype event = DOMContentLoaded | Click | SystemThemeChange | TimerFire nat | BeforeUnload

fun dispatch :: "host \<Rightarrow> event \<Rightarrow> page \<Rightarrow> page" where
  "dispatch h DOMContentLoaded s =
     (if dcl_listener s then initializeTheme h (s\<lparr>dcl_listener := False\<rparr>) else s)"
| "dispatch h Click s = (if click_listener s then handleThemeToggle h s else s)"
| "dispatch h SystemThemeChange s =
     (if change_listener s then handleSystemThemeChange h s else s)"
| "dispatch h (TimerFire k) s =
     (if k \<in> fst ` set (timers s) then timerCallback h (clearTimeout k s) else s)"
| "dispatch h BeforeUnload s = (if unload_listener s then beforeUnload h s else s)"

text \<open>
  A page on which the script has not run yet: no timer of its own, both variables
  \<^verbatim>\<open>null\<close>, no listener; timer handles are positive.
\<close>

definition fresh :: "page \<Rightarrow> bool" where
  "fresh s =
     (timers s = [] \<and> currentTimeout s = None \<and> \<not> mediaQuery s \<and>
      \<not> click_listener s \<and> \<not> change_listener s \<and> \<not> dcl_listener s \<and>
      \<not> unload_listener s \<and> uncaught s = None \<and> 0 < next_handle s)"

inductive reachable :: "page \<Rightarrow> bool" where
  init: "fresh s \<Longrightarrow> reachable (runScript h s)"
| step: "reachable s \<Longrightarrow> reachable (dispatch h e s)"

section \<open>Reference notions and sample inputs\<close>


text \<open>
  The one normalisation of paths that the specification intends for navigation: a
  trailing \<^verbatim>\<open>/index.html\<close> is the same page as the directory itself.
\<close>

definition spec_normalize :: "string \<Rightarrow> string" where
  "spec_normalize p =
     (if endsWith p ''/index.html'' then take (length p - length ''index.html'') p else p)"


text \<open>
  A page before the script has run, a store holding one value, and a host in a zone
  without offset whose three clock readings agree and whose document has loaded.
\<close>

definition blank_page :: page where
  "blank_page =
     \<lparr>localStorage = Map.empty, data_mode = None, data_theme = None, data_phase = None,
      theme_label = Some [], has_toggle = True, click_listener = False,
      change_listener = False, dcl_listener = False, unload_listener = False,
      location_path = ''/'', nav_links = [], uncaught = None,
      currentTimeout = None, mediaQuery = False, timers = [], next_handle = 1\<rparr>"

definition with_stored :: "string \<Rightarrow> page \<Rightarrow> page" where
  "with_stored v s = s\<lparr>localStorage := (localStorage s)(THEME_KEY \<mapsto> v)\<rparr>"

definition host_at :: "int \<Rightarrow> storage_backend \<Rightarrow> bool option \<Rightarrow> host" where
  "host_at t b q =
     \<lparr>phase_date = t, now_date = t, target_date = t, localTZA = (\<lambda>t isUTC. 0),
      loading = False, backend = b, dark_query = q, listener_api = Modern\<rparr>"




text \<open>A page whose only navigation link has an address that \<^verbatim>\<open>new URL\<close> rejects.\<close>

definition broken_nav_page :: page where
  "broken_nav_page = blank_page\<lparr>nav_links := [\<lparr>link_path = None, aria_current = None\<rparr>]\<rparr>"

text \<open>
  The scheduler's invariant: at most one timer is pending, and a pending timer is the
  one whose (positive) handle \<^verbatim>\<open>currentTimeout\<close> holds.
\<close>

definition timer_inv :: "page \<Rightarrow> bool" where
  "timer_inv s =
     (length (timers s) \<le> 1 \<and> 0 < next_handle s \<and>
      list_all (\<lambda>(k, d). currentTimeout s = Some k \<and> 0 < k \<and> k < next_handle s) (timers s))"

section \<open>The phase resolver\<close>

lemma getHours_range: "0 \<le> getHours t \<and> getHours t < 24"
  by (simp add: getHours_def)

lemma phaseOfHour_cases:
  "(phaseOfHour hr = ''morning'' \<longleftrightarrow> 5 \<le> hr \<and> hr < 10) \<and>
   (phaseOfHour hr = ''afternoon'' \<longleftrightarrow> 10 \<le> hr \<and> hr < 16) \<and>
   (phaseOfHour hr = ''evening'' \<longleftrightarrow> 16 \<le> hr \<and> hr < 19) \<and>
   (phaseOfHour hr = ''night'' \<longleftrightarrow> hr < 5 \<or> 19 \<le> hr)"
  by (auto simp: phaseOfHour_def)

lemma phaseOfHour_total:
  "phaseOfHour hr \<in> {''morning'', ''afternoon'', ''evening'', ''night''}"
  by (simp add: phaseOfHour_def)

lemma getCurrentPhase_hour: "getCurrentPhase h = phaseOfHour (getHours (clock h))"
  by (simp add: getCurrentPhase_def)

text \<open>
  Claim C1. Every hour gets exactly one of the four phases: morning exactly on [5,10),
  afternoon exactly on [10,16), evening exactly on [16,19) and night exactly elsewhere;
  the lower bounds are inclusive (5, 10, 16 and 19 open their phase, 4 and 0 are night).
  The four ranges are disjoint and cover the integers, so this holds for every hour of
  [0,24), which is where the hour that \<^verbatim>\<open>getCurrentPhase\<close> reads always lies.
\<close>

theorem phase_resolver:
  "phaseOfHour hr \<in> {''morning'', ''afternoon'', ''evening'', ''night''} \<and>
   (phaseOfHour hr = ''morning'' \<longleftrightarrow> 5 \<le> hr \<and> hr < 10) \<and>
   (phaseOfHour hr = ''afternoon'' \<longleftrightarrow> 10 \<le> hr \<and> hr < 16) \<and>
   (phaseOfHour hr = ''evening'' \<longleftrightarrow> 16 \<le> hr \<and> hr < 19) \<and>
   (phaseOfHour hr = ''night'' \<longleftrightarrow> hr < 5 \<or> 19 \<le> hr) \<and>
   phaseOfHour 5 = ''morning'' \<and> phaseOfHour 10 = ''afternoon'' \<and>
   phaseOfHour 16 = ''evening'' \<and> phaseOfHour 19 = ''night'' \<and>
   phaseOfHour 4 = ''night'' \<and> phaseOfHour 0 = ''night'' \<and>
   getCurrentPhase h = phaseOfHour (getHours (clock h)) \<and>
   0 \<le> getHours (clock h) \<and> getHours (clock h) < 24"
proof -
  have fixed: "phaseOfHour 5 = ''morning'' \<and> phaseOfHour 10 = ''afternoon'' \<and>
     phaseOfHour 16 = ''evening'' \<and> phaseOfHour 19 = ''night'' \<and>
     phaseOfHour 4 = ''night'' \<and> phaseOfHour 0 = ''night''"
    by (simp add: phaseOfHour_def)
  show ?thesis
    using phaseOfHour_total [of hr] phaseOfHour_cases [of hr] fixed
      getCurrentPhase_hour [of h] getHours_range [of "clock h"]
    by blast
qed

section \<open>The effective theme\<close>

lemma getSystemTheme_total: "getSystemTheme h \<in> {''light'', ''dark''}"
  by (simp add: getSystemTheme_def split: option.split)

text \<open>
  Claim C2. In mode auto the effective theme is the system preference, which is dark
  exactly when the media query answers that it matches, and light when it answers that it
  does not or when the query throws; in the modes light and dark the effective theme is
  the mode itself, whatever the system prefers.
\<close>

theorem effective_theme:
  "getEffectiveTheme h ''auto'' = getSystemTheme h \<and>
   getSystemTheme h \<in> {''light'', ''dark''} \<and>
   getSystemTheme (h\<lparr>dark_query := Some True\<rparr>) = ''dark'' \<and>
   getSystemTheme (h\<lparr>dark_query := Some False\<rparr>) = ''light'' \<and>
   getSystemTheme (h\<lparr>dark_query := None\<rparr>) = ''light'' \<and>
   getEffectiveTheme (h\<lparr>dark_query := Some True\<rparr>) ''auto'' = ''dark'' \<and>
   getEffectiveTheme (h\<lparr>dark_query := Some False\<rparr>) ''auto'' = ''light'' \<and>
   getEffectiveTheme (h\<lparr>dark_query := None\<rparr>) ''auto'' = ''light'' \<and>
   getEffectiveTheme h ''light'' = ''light'' \<and>
   getEffectiveTheme h ''dark'' = ''dark''"
  using getSystemTheme_total [of h]
  by (simp add: getSystemTheme_def getEffectiveTheme_def)

section \<open>The mode store\<close>

lemma getStoredThemeMode_in_modes: "getStoredThemeMode h s \<in> {''auto'', ''light'', ''dark''}"
  by (simp add: getStoredThemeMode_def getItem_def THEME_MODES_def split: option.split)

lemma getStoredThemeMode_read:
  "backend h \<noteq> Unavailable \<Longrightarrow> localStorage s THEME_KEY = Some v \<Longrightarrow>
     getStoredThemeMode h s = (if v \<in> {''auto'', ''light'', ''dark''} then v else ''auto'')"
  by (simp add: getStoredThemeMode_def getItem_def THEME_MODES_def)

lemma getStoredThemeMode_unset:
  "localStorage s THEME_KEY = None \<Longrightarrow> getStoredThemeMode h s = ''auto''"
  by (simp add: getStoredThemeMode_def getItem_def)

lemma getStoredThemeMode_unavailable:
  "backend h = Unavailable \<Longrightarrow> getStoredThemeMode h s = ''auto''"
  by (simp add: getStoredThemeMode_def getItem_def)

lemma storeThemeMode_ok:
  "backend h = Available \<Longrightarrow>
     storeThemeMode h m s = s\<lparr>localStorage := (localStorage s)(THEME_KEY \<mapsto> m)\<rparr>"
  by (simp add: storeThemeMode_def setItem_def)

lemma storeThemeMode_fails:
  "backend h \<noteq> Available \<Longrightarrow> storeThemeMode h m s = s"
  by (cases "backend h") (simp_all add: storeThemeMode_def setItem_def)

lemma setItem_Inr:
  "setItem h k v s = Inr s' \<longleftrightarrow>
     backend h = Available \<and> s' = s\<lparr>localStorage := (localStorage s)(k \<mapsto> v)\<rparr>"
  by (cases "backend h") (auto simp: setItem_def)

text \<open>
  Claim C3. Reading the mode answers the persisted value when that is one of
  \<^verbatim>\<open>auto\<close>, \<^verbatim>\<open>light\<close>, \<^verbatim>\<open>dark\<close>, and \<^verbatim>\<open>auto\<close> for any other stored value, for an unset
  key and for a backend whose every access throws; the read is a total function to
  strings, so nothing is raised. When writing \<^verbatim>\<open>dark\<close> succeeds (\<^verbatim>\<open>setItem\<close> returns), the
  read that follows answers \<^verbatim>\<open>dark\<close>.
\<close>

theorem mode_store:
  "(backend h \<noteq> Unavailable \<and> localStorage s THEME_KEY = Some v \<and>
      v \<in> {''auto'', ''light'', ''dark''} \<longrightarrow> getStoredThemeMode h s = v) \<and>
   (backend h \<noteq> Unavailable \<and> localStorage s THEME_KEY = Some v \<and>
      v \<notin> {''auto'', ''light'', ''dark''} \<longrightarrow> getStoredThemeMode h s = ''auto'') \<and>
   (localStorage s THEME_KEY = None \<longrightarrow> getStoredThemeMode h s = ''auto'') \<and>
   (backend h = Unavailable \<longrightarrow> getStoredThemeMode h s = ''auto'') \<and>
   (setItem h THEME_KEY ''dark'' s = Inr s' \<longrightarrow>
      storeThemeMode h ''dark'' s = s' \<and> getStoredThemeMode h s' = ''dark'')"
proof -
  have rt: "setItem h THEME_KEY ''dark'' s = Inr s' \<longrightarrow>
      storeThemeMode h ''dark'' s = s' \<and> getStoredThemeMode h s' = ''dark''"
    by (auto simp: setItem_Inr storeThemeMode_ok getStoredThemeMode_read)
  show ?thesis
    using rt getStoredThemeMode_read [of h s v] getStoredThemeMode_unset [of s h]
      getStoredThemeMode_unavailable [of h s]
    by presburger
qed

theorem mode_store_witness:
  "getStoredThemeMode (host_at 0 Available None) (with_stored ''light'' blank_page) = ''light'' \<and>
   getStoredThemeMode (host_at 0 WriteFails None) (with_stored ''blue'' blank_page) = ''auto'' \<and>
   getStoredThemeMode (host_at 0 Available None) blank_page = ''auto'' \<and>
   getStoredThemeMode (host_at 0 Unavailable None) (with_stored ''dark'' blank_page) = ''auto'' \<and>
   getStoredThemeMode (host_at 0 Available None)
     (storeThemeMode (host_at 0 Available None) ''dark'' blank_page) = ''dark''"
  using mode_store [of "host_at 0 Available None" "with_stored ''light'' blank_page" "''light''"]
    mode_store [of "host_at 0 WriteFails None" "with_stored ''blue'' blank_page" "''blue''"]
    mode_store [of "host_at 0 Available None" blank_page]
    mode_store [of "host_at 0 Unavailable None" "with_stored ''dark'' blank_page"]
    mode_store [of "host_at 0 Available None" blank_page _
      "with_stored ''dark'' blank_page"]
  by (simp add: host_at_def with_stored_def blank_page_def setItem_def THEME_KEY_def)

section \<open>The boundary delay\<close>

lemma day_split: "t mod MS_PER_DAY = MS_PER_HOUR * getHours t + t mod MS_PER_HOUR"
  using zmod_zmult2_eq [of 24 t MS_PER_HOUR]
  by (simp add: getHours_def MS_PER_DAY_def MS_PER_HOUR_def)

lemma getHours_less: "getHours t < k \<longleftrightarrow> t mod MS_PER_DAY < k * MS_PER_HOUR"
proof -
  have "0 \<le> t mod MS_PER_HOUR" "t mod MS_PER_HOUR < 3600000"
    by (simp_all add: MS_PER_HOUR_def)
  then show ?thesis
    unfolding day_split unfolding MS_PER_HOUR_def by linarith
qed

lemma nextBoundary_cases:
  "nextBoundary hr =
     (if hr < 5 then 5 else if hr < 10 then 10 else if hr < 16 then 16
      else if hr < 19 then 19 else 29)"
  by (simp add: nextBoundary_def boundaries_def)




lemma mod_day_small: "0 \<le> x \<Longrightarrow> x < 86400000 \<Longrightarrow> x mod MS_PER_DAY = x"
  by (simp add: MS_PER_DAY_def)





lemma time_of_day: "0 \<le> x \<Longrightarrow> x < 86400000 \<Longrightarrow> (d * MS_PER_DAY + x) mod MS_PER_DAY = x"
proof -
  assume x: "0 \<le> x" "x < 86400000"
  have "(x + d * MS_PER_DAY) mod MS_PER_DAY = x mod MS_PER_DAY"
    by (rule mod_mult_self1)
  then show ?thesis
    using x by (simp add: add.commute mod_day_small)
qed





section \<open>The toggle handler\<close>

lemma nextModeOf_cycle:
  "nextModeOf ''auto'' = Some ''light'' \<and> nextModeOf ''light'' = Some ''dark'' \<and>
   nextModeOf ''dark'' = Some ''auto''"
  by (simp add: nextModeOf_def indexOf_def THEME_MODES_def js_rem_def js_nth_def)

lemma nextModeOf_formula:
  "m \<in> set THEME_MODES \<Longrightarrow>
     0 \<le> indexOf THEME_MODES m \<and> indexOf THEME_MODES m < 3 \<and>
     THEME_MODES ! nat (indexOf THEME_MODES m) = m \<and>
     nextModeOf m = Some (THEME_MODES ! nat ((indexOf THEME_MODES m + 1) mod 3))"
  by (auto simp: nextModeOf_def indexOf_def THEME_MODES_def js_rem_def js_nth_def)

lemma nextModeOf_differs: "nextModeOf m \<noteq> Some m"
  by (auto simp: nextModeOf_def indexOf_def THEME_MODES_def js_rem_def js_nth_def)

lemma updateTheme_storage [simp]: "localStorage (updateTheme h s) = localStorage s"
  by (simp add: updateTheme_def updateThemeLabel_def applyTheme_def Let_def split: option.split)

lemma updateTheme_attrs:
  "data_mode (updateTheme h s) = Some (getStoredThemeMode h s) \<and>
   data_theme (updateTheme h s) = Some (getEffectiveTheme h (getStoredThemeMode h s)) \<and>
   data_phase (updateTheme h s) = Some (getCurrentPhase h)"
  by (simp add: updateTheme_def updateThemeLabel_def applyTheme_def Let_def split: option.split)

lemma updateTheme_label:
  "theme_label (updateTheme h s) =
     map_option (\<lambda>old. labelText (getStoredThemeMode h s) (getCurrentPhase h)) (theme_label s)"
  by (simp add: updateTheme_def updateThemeLabel_def applyTheme_def Let_def split: option.split)

lemma getStoredThemeMode_cong:
  "localStorage s' = localStorage s \<Longrightarrow> getStoredThemeMode h s' = getStoredThemeMode h s"
  by (simp add: getStoredThemeMode_def getItem_def)

lemma getStoredThemeMode_host:
  "backend h \<noteq> Unavailable \<Longrightarrow> backend h' \<noteq> Unavailable \<Longrightarrow>
     getStoredThemeMode h' s = getStoredThemeMode h s"
  by (simp add: getStoredThemeMode_def getItem_def)

lemma toggle_available:
  assumes "backend h = Available" and "nextModeOf (getStoredThemeMode h s) = Some m"
  shows "handleThemeToggle h s = updateTheme h (storeThemeMode h m s) \<and>
     localStorage (handleThemeToggle h s) THEME_KEY = Some m \<and>
     getStoredThemeMode h (handleThemeToggle h s) = m \<and>
     data_mode (handleThemeToggle h s) = Some m"
proof -
  have m: "m \<in> {''auto'', ''light'', ''dark''}"
    using assms(2) getStoredThemeMode_in_modes [of h s] nextModeOf_cycle by auto
  have t: "handleThemeToggle h s = updateTheme h (storeThemeMode h m s)"
    using assms(2) by (simp add: handleThemeToggle_def js_to_string_def)
  have st: "localStorage (storeThemeMode h m s) THEME_KEY = Some m"
    using assms(1) by (simp add: storeThemeMode_ok)
  have rd: "getStoredThemeMode h (storeThemeMode h m s) = m"
    using getStoredThemeMode_read [OF _ st, of h] assms(1) m by auto
  show ?thesis
    unfolding t using st rd updateTheme_attrs [of h "storeThemeMode h m s"]
    by (simp add: getStoredThemeMode_cong [of "updateTheme h (storeThemeMode h m s)"])
qed

text \<open>
  Claim C4 speaks of every activation. Where the store rejects writes it fails: on a page
  with nothing stored the next mode is light, yet after the activation nothing is stored,
  the mode read is still auto and the page shows auto, and it stays so after a second and
  a third activation.
\<close>

theorem toggle_cycle_counterexample:
  "getStoredThemeMode (host_at 0 WriteFails None) blank_page = ''auto'' \<and>
   nextModeOf ''auto'' = Some ''light'' \<and>
   localStorage (handleThemeToggle (host_at 0 WriteFails None) blank_page) THEME_KEY = None \<and>
   getStoredThemeMode (host_at 0 WriteFails None)
     (handleThemeToggle (host_at 0 WriteFails None) blank_page) = ''auto'' \<and>
   data_mode (handleThemeToggle (host_at 0 WriteFails None) blank_page) = Some ''auto'' \<and>
   getStoredThemeMode (host_at 0 WriteFails None)
     (handleThemeToggle (host_at 0 WriteFails None)
       (handleThemeToggle (host_at 0 WriteFails None) blank_page)) = ''auto''"
proof -
  define hw where "hw = host_at 0 WriteFails None"
  have b: "backend hw \<noteq> Available"
    by (simp add: hw_def host_at_def)
  have t: "handleThemeToggle hw s = updateTheme hw s" for s
    by (simp add: handleThemeToggle_def storeThemeMode_fails [OF b])
  have st: "localStorage (updateTheme hw s) THEME_KEY = None"
    if "localStorage s THEME_KEY = None" for s
    using that by simp
  have e: "localStorage blank_page THEME_KEY = None"
    by (simp add: blank_page_def)
  have a: "getStoredThemeMode hw s = ''auto''" if "localStorage s THEME_KEY = None" for s
    using that by (rule getStoredThemeMode_unset)
  have d: "data_mode (updateTheme hw blank_page) = Some ''auto''"
    using updateTheme_attrs [of hw blank_page] a [OF e] by simp
  show ?thesis
    unfolding hw_def [symmetric] t
    using a [OF e] nextModeOf_cycle st [OF e] a [OF st [OF e]] d a [OF st [OF st [OF e]]]
    by simp
qed

text \<open>
  Claim C4, with the condition it needs. When the store accepts the write, one
  activation of the toggle computes the next mode as the entry of [auto, light, dark] at
  (index of the current mode + 1) modulo 3, that is auto to light, light to dark, dark to
  auto; it persists that mode and then runs the full theme update on the page so written,
  which therefore shows the next mode. Starting from mode auto, three activations in a
  row whose writes succeed read light, then dark, then auto again.
\<close>

theorem toggle_cycle:
  assumes "backend h = Available" and "backend h2 = Available" and "backend h3 = Available"
  shows "(\<exists>m. m \<in> set THEME_MODES \<and>
        nextModeOf (getStoredThemeMode h s) =
          Some (THEME_MODES ! nat ((indexOf THEME_MODES (getStoredThemeMode h s) + 1) mod 3)) \<and>
        nextModeOf (getStoredThemeMode h s) = Some m \<and>
        handleThemeToggle h s = updateTheme h (storeThemeMode h m s) \<and>
        localStorage (handleThemeToggle h s) THEME_KEY = Some m \<and>
        getStoredThemeMode h (handleThemeToggle h s) = m \<and>
        data_mode (handleThemeToggle h s) = Some m) \<and>
     nextModeOf ''auto'' = Some ''light'' \<and> nextModeOf ''light'' = Some ''dark'' \<and>
     nextModeOf ''dark'' = Some ''auto'' \<and>
     (getStoredThemeMode h s = ''auto'' \<longrightarrow>
        getStoredThemeMode h2 (handleThemeToggle h s) = ''light'' \<and>
        getStoredThemeMode h3 (handleThemeToggle h2 (handleThemeToggle h s)) = ''dark'' \<and>
        getStoredThemeMode h
          (handleThemeToggle h3 (handleThemeToggle h2 (handleThemeToggle h s))) = ''auto'')"
proof -
  have cur: "getStoredThemeMode h s \<in> set THEME_MODES"
    using getStoredThemeMode_in_modes [of h s] by (simp add: THEME_MODES_def)
  define m where "m = THEME_MODES ! nat ((indexOf THEME_MODES (getStoredThemeMode h s) + 1) mod 3)"
  have nm: "nextModeOf (getStoredThemeMode h s) = Some m"
    using nextModeOf_formula [OF cur] by (simp add: m_def)
  have mm: "m \<in> set THEME_MODES"
    using nm cur nextModeOf_cycle by (auto simp: THEME_MODES_def)
  have one: "\<exists>m. m \<in> set THEME_MODES \<and>
        nextModeOf (getStoredThemeMode h s) =
          Some (THEME_MODES ! nat ((indexOf THEME_MODES (getStoredThemeMode h s) + 1) mod 3)) \<and>
        nextModeOf (getStoredThemeMode h s) = Some m \<and>
        handleThemeToggle h s = updateTheme h (storeThemeMode h m s) \<and>
        localStorage (handleThemeToggle h s) THEME_KEY = Some m \<and>
        getStoredThemeMode h (handleThemeToggle h s) = m \<and>
        data_mode (handleThemeToggle h s) = Some m"
    using toggle_available [OF assms(1) nm] nm mm unfolding m_def by blast
  have three: "getStoredThemeMode h2 (handleThemeToggle h s) = ''light'' \<and>
        getStoredThemeMode h3 (handleThemeToggle h2 (handleThemeToggle h s)) = ''dark'' \<and>
        getStoredThemeMode h
          (handleThemeToggle h3 (handleThemeToggle h2 (handleThemeToggle h s))) = ''auto''"
    if a: "getStoredThemeMode h s = ''auto''"
  proof -
    have n1: "nextModeOf (getStoredThemeMode h s) = Some ''light''"
      using a nextModeOf_cycle by simp
    have r1: "getStoredThemeMode h (handleThemeToggle h s) = ''light''"
      using toggle_available [OF assms(1) n1] by blast
    have r1': "getStoredThemeMode h2 (handleThemeToggle h s) = ''light''"
      using r1 getStoredThemeMode_host [of h h2] assms by simp
    have n2: "nextModeOf (getStoredThemeMode h2 (handleThemeToggle h s)) = Some ''dark''"
      using r1' nextModeOf_cycle by simp
    have r2: "getStoredThemeMode h2 (handleThemeToggle h2 (handleThemeToggle h s)) = ''dark''"
      using toggle_available [OF assms(2) n2] by blast
    have r2': "getStoredThemeMode h3 (handleThemeToggle h2 (handleThemeToggle h s)) = ''dark''"
      using r2 getStoredThemeMode_host [of h2 h3] assms by simp
    have n3: "nextModeOf (getStoredThemeMode h3 (handleThemeToggle h2 (handleThemeToggle h s)))
        = Some ''auto''"
      using r2' nextModeOf_cycle by simp
    have r3: "getStoredThemeMode h3
        (handleThemeToggle h3 (handleThemeToggle h2 (handleThemeToggle h s))) = ''auto''"
      using toggle_available [OF assms(3) n3] by blast
    have r3': "getStoredThemeMode h
        (handleThemeToggle h3 (handleThemeToggle h2 (handleThemeToggle h s))) = ''auto''"
      using r3 getStoredThemeMode_host [of h3 h] assms by simp
    show ?thesis using r1' r2' r3' by simp
  qed
  show ?thesis using one nextModeOf_cycle three by blast
qed

theorem toggle_cycle_witness:
  "backend (host_at 0 Available None) = Available \<and>
   getStoredThemeMode (host_at 0 Available None) blank_page = ''auto'' \<and>
   getStoredThemeMode (host_at 0 Available None)
     (handleThemeToggle (host_at 0 Available None) blank_page) = ''light'' \<and>
   getStoredThemeMode (host_at 0 Available None)
     (handleThemeToggle (host_at 0 Available None)
       (handleThemeToggle (host_at 0 Available None) blank_page)) = ''dark'' \<and>
   getStoredThemeMode (host_at 0 Available None)
     (handleThemeToggle (host_at 0 Available None)
       (handleThemeToggle (host_at 0 Available None)
         (handleThemeToggle (host_at 0 Available None) blank_page))) = ''auto''"
proof -
  have b: "backend (host_at 0 Available None) = Available"
    by (simp add: host_at_def)
  have a: "getStoredThemeMode (host_at 0 Available None) blank_page = ''auto''"
    by (simp add: getStoredThemeMode_unset blank_page_def)
  show ?thesis
    using toggle_cycle [OF b b b, of blank_page] a b by blast
qed

text \<open>
  Claim C6 says that after a failed write the update still applies the newly computed
  mode. It does not: on a page with nothing stored and a store that rejects writes, the
  next mode is light, yet after the activation the root attribute still says auto.
\<close>

theorem toggle_write_failure_counterexample:
  "storeThemeMode (host_at 0 WriteFails None) ''light'' blank_page = blank_page \<and>
   nextModeOf (getStoredThemeMode (host_at 0 WriteFails None) blank_page) = Some ''light'' \<and>
   data_mode (handleThemeToggle (host_at 0 WriteFails None) blank_page) = Some ''auto'' \<and>
   data_mode (handleThemeToggle (host_at 0 WriteFails None) blank_page) \<noteq> Some ''light''"
proof -
  have b: "backend (host_at 0 WriteFails None) \<noteq> Available"
    by (simp add: host_at_def)
  have a: "getStoredThemeMode (host_at 0 WriteFails None) blank_page = ''auto''"
    by (simp add: getStoredThemeMode_unset blank_page_def)
  have t: "handleThemeToggle (host_at 0 WriteFails None) blank_page =
      updateTheme (host_at 0 WriteFails None) blank_page"
    by (simp add: handleThemeToggle_def storeThemeMode_fails [OF b])
  show ?thesis
    unfolding t using a nextModeOf_cycle updateTheme_attrs [of "host_at 0 WriteFails None" blank_page]
    by (simp add: storeThemeMode_fails [OF b])
qed

text \<open>
  Claim C6, as the code has it. When the write of a toggle activation fails, the error
  is swallowed and the store is left as it was; the activation is then exactly the full
  theme update, which reads the mode back from the store. So the page shows the mode that
  was stored before (auto when nothing valid is stored or the store cannot be read), and
  never the newly computed next mode: the script keeps no mode in memory.
\<close>

theorem toggle_write_failure:
  assumes "backend h \<noteq> Available"
  shows "storeThemeMode h m s = s \<and>
     handleThemeToggle h s = updateTheme h s \<and>
     localStorage (handleThemeToggle h s) = localStorage s \<and>
     getStoredThemeMode h (handleThemeToggle h s) = getStoredThemeMode h s \<and>
     data_mode (handleThemeToggle h s) = Some (getStoredThemeMode h s) \<and>
     data_mode (handleThemeToggle h s) \<noteq> nextModeOf (getStoredThemeMode h s)"
proof -
  have t: "handleThemeToggle h s = updateTheme h s"
    by (simp add: handleThemeToggle_def storeThemeMode_fails [OF assms])
  show ?thesis
    unfolding t
    using updateTheme_attrs [of h s] nextModeOf_differs [of "getStoredThemeMode h s"]
    by (simp add: storeThemeMode_fails [OF assms] getStoredThemeMode_cong [of "updateTheme h s"])
qed

theorem toggle_write_failure_witness:
  "backend (host_at 0 WriteFails None) \<noteq> Available \<and>
   handleThemeToggle (host_at 0 WriteFails None) (with_stored ''light'' blank_page) =
     updateTheme (host_at 0 WriteFails None) (with_stored ''light'' blank_page) \<and>
   data_mode (handleThemeToggle (host_at 0 WriteFails None) (with_stored ''light'' blank_page)) =
     Some ''light''"
proof -
  have b: "backend (host_at 0 WriteFails None) \<noteq> Available"
    by (simp add: host_at_def)
  have l: "localStorage (with_stored ''light'' blank_page) THEME_KEY = Some ''light''"
    by (simp add: with_stored_def)
  have a: "getStoredThemeMode (host_at 0 WriteFails None) (with_stored ''light'' blank_page) =
      ''light''"
    using getStoredThemeMode_read [OF _ l, of "host_at 0 WriteFails None"]
    by (simp add: host_at_def)
  show ?thesis
    using toggle_write_failure [OF b, of "''dark''" "with_stored ''light'' blank_page"] a b
    by metis
qed

section \<open>The full update\<close>

lemma getHours_at:
  assumes "0 \<le> x" and "x < 86400000" and "k * 3600000 \<le> x" and "x < (k + 1) * 3600000"
  shows "getHours (d * MS_PER_DAY + x) = k"
proof -
  have "getHours (d * MS_PER_DAY + x) < k + 1"
    unfolding getHours_less time_of_day [OF assms(1,2)] using assms(4)
    by (simp add: MS_PER_HOUR_def)
  moreover have "\<not> getHours (d * MS_PER_DAY + x) < k"
    unfolding getHours_less time_of_day [OF assms(1,2)] using assms(3)
    by (simp add: MS_PER_HOUR_def)
  ultimately show ?thesis by simp
qed

text \<open>
  Claim C7. On a page with no stored mode, with a system that prefers dark and a local
  time of 08:30 on any day, the full update sets the root attributes to mode auto, theme
  dark and phase morning, and writes the label text "Auto", bullet, "morning" when the
  page has a label element. In general the label is "Auto", bullet and the phase in mode
  auto, and "Light" or "Dark" in the other two modes.
\<close>

theorem end_to_end:
  assumes "localStorage s THEME_KEY = None" and "dark_query h = Some True"
    and "clock h = d * MS_PER_DAY + 8 * MS_PER_HOUR + 30 * 60000"
  shows "data_mode (updateTheme h s) = Some ''auto'' \<and>
     data_theme (updateTheme h s) = Some ''dark'' \<and>
     data_phase (updateTheme h s) = Some ''morning'' \<and>
     theme_label (updateTheme h s) =
       map_option (\<lambda>old. ''Auto '' @ bullet @ '' morning'') (theme_label s) \<and>
     theme_label (updateTheme h' s') =
       map_option (\<lambda>old. labelText (getStoredThemeMode h' s') (getCurrentPhase h'))
         (theme_label s') \<and>
     labelText ''auto'' ph = ''Auto '' @ bullet @ '' '' @ ph \<and>
     labelText ''light'' ph = ''Light'' \<and>
     labelText ''dark'' ph = ''Dark''"
proof -
  have c: "clock h = d * MS_PER_DAY + 30600000"
    using assms(3) by (simp add: MS_PER_HOUR_def)
  have hr: "getHours (clock h) = 8"
    unfolding c by (rule getHours_at) simp_all
  have ph: "getCurrentPhase h = ''morning''"
    by (simp add: getCurrentPhase_def hr phaseOfHour_def)
  have md: "getStoredThemeMode h s = ''auto''"
    using assms(1) by (rule getStoredThemeMode_unset)
  have th: "getEffectiveTheme h ''auto'' = ''dark''"
    using assms(2) by (simp add: getEffectiveTheme_def getSystemTheme_def)
  have lb: "labelText ''auto'' ph = ''Auto '' @ bullet @ '' '' @ ph \<and>
     labelText ''light'' ph = ''Light'' \<and> labelText ''dark'' ph = ''Dark''" for ph
    by (simp add: labelText_def)
  have l1: "theme_label (updateTheme h s) =
       map_option (\<lambda>old. ''Auto '' @ bullet @ '' morning'') (theme_label s)"
    unfolding updateTheme_label md ph using lb [of "''morning''"] by simp
  show ?thesis
    using updateTheme_attrs [of h s] l1 updateTheme_label [of h' s'] lb [of ph]
    unfolding md ph th by blast
qed

theorem end_to_end_witness:
  "localStorage blank_page THEME_KEY = None \<and>
   dark_query (host_at 30600000 Available (Some True)) = Some True \<and>
   clock (host_at 30600000 Available (Some True)) = 0 * MS_PER_DAY + 8 * MS_PER_HOUR + 30 * 60000 \<and>
   data_mode (updateTheme (host_at 30600000 Available (Some True)) blank_page) = Some ''auto'' \<and>
   data_theme (updateTheme (host_at 30600000 Available (Some True)) blank_page) = Some ''dark'' \<and>
   data_phase (updateTheme (host_at 30600000 Available (Some True)) blank_page) = Some ''morning'' \<and>
   theme_label (updateTheme (host_at 30600000 Available (Some True)) blank_page) =
     Some (''Auto '' @ [CHR 0xE2, CHR 0x80, CHR 0xA2] @ '' morning'')"
proof -
  have s: "localStorage blank_page THEME_KEY = None"
    by (simp add: blank_page_def)
  have q: "dark_query (host_at 30600000 Available (Some True)) = Some True"
    by (simp add: host_at_def)
  have c: "clock (host_at 30600000 Available (Some True)) =
      0 * MS_PER_DAY + 8 * MS_PER_HOUR + 30 * 60000"
    by (simp add: host_at_def clock_def LocalTime_def MS_PER_HOUR_def)
  have l: "theme_label blank_page = Some []"
    by (simp add: blank_page_def)
  show ?thesis
    using end_to_end [OF s q c, of "host_at 0 Available None" blank_page "''morning''"] s q c l
    by (simp add: bullet_def)
qed

section \<open>Navigation matching\<close>

text \<open>
  Claim C9. There are a current path and a link path that the matching marks as the
  current page although they are different paths and remain different once a trailing
  \<^verbatim>\<open>/index.html\<close> is normalised away: on the page \<^verbatim>\<open>/blog/projects.html\<close> the link to
  \<^verbatim>\<open>/projects.html\<close> gets \<^verbatim>\<open>aria-current\<close>, by the substring rule alone.
\<close>

theorem nav_substring_misfire:
  "isCurrentPage ''/blog/projects.html'' ''/projects.html'' \<and>
   ''/blog/projects.html'' \<noteq> ''/projects.html'' \<and>
   spec_normalize ''/blog/projects.html'' \<noteq> spec_normalize ''/projects.html'' \<and>
   \<not> endsWith ''/blog/projects.html'' ''/index.html'' \<and>
   \<not> endsWith ''/projects.html'' ''/index.html'' \<and>
   includes_str ''/blog/projects.html'' ''/projects.html'' \<and>
   nav_links (setActiveNavigation
     (blank_page\<lparr>location_path := ''/blog/projects.html'',
        nav_links := [\<lparr>link_path = Some ''/projects.html'', aria_current = None\<rparr>]\<rparr>)) =
     [\<lparr>link_path = Some ''/projects.html'', aria_current = Some ''page''\<rparr>]"
  by (simp add: isCurrentPage_def spec_normalize_def endsWith_def setActiveNavigation_def
      blank_page_def)

section \<open>The pre-paint path\<close>

text \<open>
  Claim C10. For every clock reading, every storage content and backend behaviour and
  every answer of the media query, the three local functions of \<^verbatim>\<open>prePaintTheme\<close> equal
  \<^verbatim>\<open>getCurrentPhase\<close>, \<^verbatim>\<open>getStoredThemeMode\<close> and \<^verbatim>\<open>getEffectiveTheme\<close>, and the pre-paint
  path sets the three root attributes to the values the main update sets.
\<close>

theorem prePaint_agrees:
  "prePaint_getPhase h = getCurrentPhase h \<and>
   prePaint_getMode h s = getStoredThemeMode h s \<and>
   prePaint_getTheme h m = getEffectiveTheme h m \<and>
   data_mode (prePaintTheme h s) = Some (getStoredThemeMode h s) \<and>
   data_theme (prePaintTheme h s) = Some (getEffectiveTheme h (getStoredThemeMode h s)) \<and>
   data_phase (prePaintTheme h s) = Some (getCurrentPhase h) \<and>
   data_mode (prePaintTheme h s) = data_mode (updateTheme h s) \<and>
   data_theme (prePaintTheme h s) = data_theme (updateTheme h s) \<and>
   data_phase (prePaintTheme h s) = data_phase (updateTheme h s) \<and>
   prePaintTheme h s = applyTheme h (getStoredThemeMode h s) (getCurrentPhase h) s"
proof -
  have p: "prePaint_getPhase h = getCurrentPhase h"
    by (simp add: prePaint_getPhase_def getCurrentPhase_def phaseOfHour_def)
  have m: "prePaint_getMode h s = getStoredThemeMode h s"
    unfolding prePaint_getMode_def getStoredThemeMode_def THEME_KEY_def THEME_MODES_def
    by (rule refl)
  have e: "prePaint_getTheme h m = getEffectiveTheme h m" for m
    by (simp add: prePaint_getTheme_def getEffectiveTheme_def getSystemTheme_def)
  have a: "prePaintTheme h s = applyTheme h (getStoredThemeMode h s) (getCurrentPhase h) s"
    by (simp add: prePaintTheme_def applyTheme_def p m e Let_def)
  have d: "data_mode (prePaintTheme h s) = Some (getStoredThemeMode h s) \<and>
     data_theme (prePaintTheme h s) = Some (getEffectiveTheme h (getStoredThemeMode h s)) \<and>
     data_phase (prePaintTheme h s) = Some (getCurrentPhase h)"
    by (simp add: a applyTheme_def)
  show ?thesis
    using p m e [of m] a d updateTheme_attrs [of h s] by simp
qed

section \<open>The boundary scheduler has one timer\<close>

lemma timer_inv_cong:
  "timers s' = timers s \<Longrightarrow> currentTimeout s' = currentTimeout s \<Longrightarrow>
     next_handle s' = next_handle s \<Longrightarrow> timer_inv s' = timer_inv s"
  by (simp add: timer_inv_def)

lemma updateTheme_timer_fields:
  "timers (updateTheme h s) = timers s \<and> currentTimeout (updateTheme h s) = currentTimeout s \<and>
   next_handle (updateTheme h s) = next_handle s"
  by (simp add: updateTheme_def updateThemeLabel_def applyTheme_def Let_def split: option.split)

lemma storeThemeMode_timer_fields:
  "timers (storeThemeMode h m s) = timers s \<and>
   currentTimeout (storeThemeMode h m s) = currentTimeout s \<and>
   next_handle (storeThemeMode h m s) = next_handle s"
  by (cases "backend h") (simp_all add: storeThemeMode_def setItem_def)

lemma handleThemeToggle_timer_fields:
  "timers (handleThemeToggle h s) = timers s \<and>
   currentTimeout (handleThemeToggle h s) = currentTimeout s \<and>
   next_handle (handleThemeToggle h s) = next_handle s"
  by (simp add: handleThemeToggle_def Let_def updateTheme_timer_fields storeThemeMode_timer_fields)

lemma handleSystemThemeChange_timer_fields:
  "timers (handleSystemThemeChange h s) = timers s \<and>
   currentTimeout (handleSystemThemeChange h s) = currentTimeout s \<and>
   next_handle (handleSystemThemeChange h s) = next_handle s"
  by (simp add: handleSystemThemeChange_def Let_def updateTheme_timer_fields)

lemma subscribe_timer_fields:
  "timers (subscribe h s) = timers s \<and> currentTimeout (subscribe h s) = currentTimeout s \<and>
   next_handle (subscribe h s) = next_handle s"
  by (simp add: subscribe_def Let_def split: option.split listener_support.split)

lemma setActiveNavigation_timer_fields:
  "timers (setActiveNavigation s) = timers s \<and>
   currentTimeout (setActiveNavigation s) = currentTimeout s \<and>
   next_handle (setActiveNavigation s) = next_handle s"
  by (simp add: setActiveNavigation_def split: prod.split)

lemma clearTimeout_fields:
  "currentTimeout (clearTimeout k s) = currentTimeout s \<and>
   next_handle (clearTimeout k s) = next_handle s"
  by (simp add: clearTimeout_def)

lemma timer_inv_shape:
  assumes "timer_inv s"
  shows "timers s = [] \<or>
     (\<exists>k d. timers s = [(k, d)] \<and> currentTimeout s = Some k \<and> 0 < k \<and> k < next_handle s)"
proof (cases "timers s")
  case Nil
  then show ?thesis by simp
next
  case (Cons p ps)
  then have "ps = []" using assms by (simp add: timer_inv_def)
  then show ?thesis using assms Cons by (cases p) (simp add: timer_inv_def)
qed

lemma clearTimeout_inv: "timer_inv s \<Longrightarrow> timer_inv (clearTimeout k s)"
  using timer_inv_shape [of s]
  by (auto simp: timer_inv_def clearTimeout_def)

lemma clearTimeout_pending:
  "timer_inv s \<Longrightarrow> k \<in> fst ` set (timers s) \<Longrightarrow> timers (clearTimeout k s) = []"
  using timer_inv_shape [of s]
  by (auto simp: clearTimeout_def)

lemma clearCurrent_empties:
  "timer_inv s \<Longrightarrow>
     timers (clearCurrent s) = [] \<and> next_handle (clearCurrent s) = next_handle s \<and>
     currentTimeout (clearCurrent s) = currentTimeout s"
  using timer_inv_shape [of s]
  by (auto simp: clearCurrent_def clearTimeout_def split: option.split)

lemma schedulePhaseUpdate_arms:
  assumes "timer_inv s"
  shows "timers (schedulePhaseUpdate h s) = [(next_handle s, getTimeUntilNextPhase h)] \<and>
     currentTimeout (schedulePhaseUpdate h s) = Some (next_handle s) \<and>
     next_handle (schedulePhaseUpdate h s) = Suc (next_handle s)"
  using clearCurrent_empties [OF assms]
  by (simp add: schedulePhaseUpdate_def setTimeout_def Let_def)

lemma schedulePhaseUpdate_inv: "timer_inv s \<Longrightarrow> timer_inv (schedulePhaseUpdate h s)"
  using schedulePhaseUpdate_arms [of s h]
  by (simp add: timer_inv_def)

lemma timerCallback_inv: "timer_inv s \<Longrightarrow> timer_inv (timerCallback h s)"
  unfolding timerCallback_def
  by (intro schedulePhaseUpdate_inv) (simp add: timer_inv_cong [of "updateTheme h s" s] updateTheme_timer_fields)

lemma beforeUnload_disarms:
  "timer_inv s \<Longrightarrow> timers (beforeUnload h s) = [] \<and> timer_inv (beforeUnload h s)"
  using clearCurrent_empties [of s]
  by (simp add: beforeUnload_def Let_def timer_inv_def)

lemma fresh_inv: "fresh s \<Longrightarrow> timer_inv s"
  by (simp add: fresh_def timer_inv_def)

lemma initializeTheme_arms:
  assumes "timer_inv s"
  shows "timer_inv (initializeTheme h s) \<and>
     timers (initializeTheme h s) = [(next_handle s, getTimeUntilNextPhase h)] \<and>
     next_handle (initializeTheme h s) = Suc (next_handle s)"
proof -
  define s2 where "s2 = (if has_toggle (updateTheme h s)
    then (updateTheme h s)\<lparr>click_listener := True\<rparr> else updateTheme h s)"
  define s3 where "s3 = subscribe h s2"
  define s4 where "s4 = schedulePhaseUpdate h s3"
  have f2: "timers s2 = timers s \<and> currentTimeout s2 = currentTimeout s \<and>
      next_handle s2 = next_handle s"
    using updateTheme_timer_fields [of h s] by (simp add: s2_def)
  have f3: "timers s3 = timers s \<and> currentTimeout s3 = currentTimeout s \<and>
      next_handle s3 = next_handle s"
    using f2 subscribe_timer_fields [of h s2] by (simp add: s3_def)
  have i3: "timer_inv s3"
    using assms f3 by (simp add: timer_inv_cong [of s3 s])
  have i4: "timer_inv s4"
    unfolding s4_def using i3 by (rule schedulePhaseUpdate_inv)
  have t4: "timers s4 = [(next_handle s, getTimeUntilNextPhase h)] \<and>
      next_handle s4 = Suc (next_handle s)"
    unfolding s4_def using schedulePhaseUpdate_arms [OF i3, of h] f3 by simp
  have e: "initializeTheme h s = setActiveNavigation s4"
    by (simp add: initializeTheme_def Let_def s2_def s3_def s4_def)
  show ?thesis
    unfolding e using i4 t4 setActiveNavigation_timer_fields [of s4]
    by (simp add: timer_inv_cong [of "setActiveNavigation s4" s4])
qed

lemma initializeTheme_inv: "timer_inv s \<Longrightarrow> timer_inv (initializeTheme h s)"
  using initializeTheme_arms by blast

lemma timer_inv_flags:
  "timer_inv (s\<lparr>dcl_listener := a\<rparr>) = timer_inv s \<and>
   timer_inv (s\<lparr>unload_listener := b\<rparr>) = timer_inv s \<and>
   timer_inv (s\<lparr>dcl_listener := a, unload_listener := b\<rparr>) = timer_inv s"
  by (simp add: timer_inv_def)

lemma runScript_inv: "fresh s \<Longrightarrow> timer_inv (runScript h s)"
  using initializeTheme_inv [OF fresh_inv, of s h]
  by (simp add: runScript_def Let_def timer_inv_flags fresh_inv)

lemma dispatch_inv: "timer_inv s \<Longrightarrow> timer_inv (dispatch h e s)"
proof (cases e)
  case DOMContentLoaded
  then show "timer_inv s \<Longrightarrow> ?thesis"
    by (simp add: initializeTheme_inv timer_inv_flags)
next
  case Click
  then show "timer_inv s \<Longrightarrow> ?thesis"
    by (simp add: timer_inv_cong [of "handleThemeToggle h s" s] handleThemeToggle_timer_fields)
next
  case SystemThemeChange
  then show "timer_inv s \<Longrightarrow> ?thesis"
    by (simp add: timer_inv_cong [of "handleSystemThemeChange h s" s]
        handleSystemThemeChange_timer_fields)
next
  case (TimerFire k)
  then show "timer_inv s \<Longrightarrow> ?thesis"
    by (simp add: timerCallback_inv clearTimeout_inv)
next
  case BeforeUnload
  then show "timer_inv s \<Longrightarrow> ?thesis"
    by (simp add: beforeUnload_disarms)
qed

lemma reachable_inv: "reachable s \<Longrightarrow> timer_inv s"
proof (induction rule: reachable.induct)
  case (init s h)
  then show ?case by (rule runScript_inv)
next
  case (step s h e)
  then show ?case by (simp add: dispatch_inv)
qed

lemma schedulePhaseUpdate_dom_fields:
  "data_mode (schedulePhaseUpdate h s) = data_mode s \<and>
   data_theme (schedulePhaseUpdate h s) = data_theme s \<and>
   data_phase (schedulePhaseUpdate h s) = data_phase s \<and>
   theme_label (schedulePhaseUpdate h s) = theme_label s \<and>
   localStorage (schedulePhaseUpdate h s) = localStorage s"
  by (simp add: schedulePhaseUpdate_def setTimeout_def clearCurrent_def clearTimeout_def Let_def
      split: option.split)

lemma updateTheme_clearTimeout:
  "data_mode (updateTheme h (clearTimeout k s)) = data_mode (updateTheme h s) \<and>
   data_theme (updateTheme h (clearTimeout k s)) = data_theme (updateTheme h s) \<and>
   data_phase (updateTheme h (clearTimeout k s)) = data_phase (updateTheme h s) \<and>
   theme_label (updateTheme h (clearTimeout k s)) = theme_label (updateTheme h s)"
proof -
  have m: "getStoredThemeMode h (clearTimeout k s) = getStoredThemeMode h s"
    by (rule getStoredThemeMode_cong) (simp add: clearTimeout_def)
  have l: "theme_label (clearTimeout k s) = theme_label s"
    by (simp add: clearTimeout_def)
  show ?thesis
    using updateTheme_attrs [of h s] updateTheme_attrs [of h "clearTimeout k s"]
    by (simp add: updateTheme_label m l)
qed

lemma timerFire_rearms:
  assumes "timer_inv s" and "k \<in> fst ` set (timers s)"
  shows "dispatch h (TimerFire k) s = schedulePhaseUpdate h (updateTheme h (clearTimeout k s)) \<and>
     timers (dispatch h (TimerFire k) s) = [(next_handle s, getTimeUntilNextPhase h)] \<and>
     k < next_handle s \<and>
     data_mode (dispatch h (TimerFire k) s) = data_mode (updateTheme h s) \<and>
     data_theme (dispatch h (TimerFire k) s) = data_theme (updateTheme h s) \<and>
     data_phase (dispatch h (TimerFire k) s) = data_phase (updateTheme h s) \<and>
     theme_label (dispatch h (TimerFire k) s) = theme_label (updateTheme h s)"
proof -
  define s1 where "s1 = updateTheme h (clearTimeout k s)"
  have d: "dispatch h (TimerFire k) s = schedulePhaseUpdate h s1"
    using assms(2) by (simp add: timerCallback_def s1_def)
  have f1: "timers s1 = timers (clearTimeout k s) \<and>
      currentTimeout s1 = currentTimeout (clearTimeout k s) \<and>
      next_handle s1 = next_handle s"
    using updateTheme_timer_fields [of h "clearTimeout k s"] clearTimeout_fields [of k s]
    by (simp add: s1_def)
  have i1: "timer_inv s1"
    using clearTimeout_inv [OF assms(1), of k] f1 clearTimeout_fields [of k s]
    by (simp add: timer_inv_def)
  have t: "timers (schedulePhaseUpdate h s1) = [(next_handle s, getTimeUntilNextPhase h)]"
    using schedulePhaseUpdate_arms [OF i1, of h] f1 by simp
  have lt: "k < next_handle s"
    using timer_inv_shape [OF assms(1)] assms(2) by auto
  show ?thesis
    unfolding d using t lt schedulePhaseUpdate_dom_fields [of h s1]
      updateTheme_clearTimeout [of h k s]
    by (simp add: s1_def)
qed

text \<open>
  In every state that the script can reach, through the events in any order, at most
  one timer is pending, also after one more event. Arming leaves exactly the newly
  scheduled one-shot timer pending, so a timer pending before is cancelled first. A
  firing timer, which the browser has dropped from its list, runs the full update and
  then arms again under a fresh handle. The unload handler, when it runs, leaves no
  timer pending; it runs when the script has registered it.
\<close>

lemma one_timer_pending:
  assumes "reachable s"
  shows "length (timers s) \<le> 1 \<and>
     length (timers (dispatch h e s)) \<le> 1 \<and>
     timers (schedulePhaseUpdate h s) = [(next_handle s, getTimeUntilNextPhase h)] \<and>
     currentTimeout (schedulePhaseUpdate h s) = Some (next_handle s) \<and>
     (k \<in> fst ` set (timers s) \<longrightarrow>
        dispatch h (TimerFire k) s = schedulePhaseUpdate h (updateTheme h (clearTimeout k s)) \<and>
        timers (dispatch h (TimerFire k) s) = [(next_handle s, getTimeUntilNextPhase h)] \<and>
        k < next_handle s \<and>
        data_mode (dispatch h (TimerFire k) s) = data_mode (updateTheme h s) \<and>
        data_theme (dispatch h (TimerFire k) s) = data_theme (updateTheme h s) \<and>
        data_phase (dispatch h (TimerFire k) s) = data_phase (updateTheme h s) \<and>
        theme_label (dispatch h (TimerFire k) s) = theme_label (updateTheme h s)) \<and>
     timers (beforeUnload h s) = [] \<and>
     (unload_listener s \<longrightarrow> timers (dispatch h BeforeUnload s) = [])"
proof -
  have i: "timer_inv s"
    using assms by (rule reachable_inv)
  have i': "timer_inv (dispatch h e s)"
    using i by (rule dispatch_inv)
  have one: "length (timers s) \<le> 1" "length (timers (dispatch h e s)) \<le> 1"
    using i i' by (simp_all add: timer_inv_def)
  have unload: "timers (beforeUnload h s) = []"
    using beforeUnload_disarms [OF i, of h] by simp
  have unload': "unload_listener s \<longrightarrow> timers (dispatch h BeforeUnload s) = []"
    using unload by simp
  show ?thesis
    using one schedulePhaseUpdate_arms [OF i, of h] timerFire_rearms [OF i, of k h] unload unload'
    by blast
qed

lemma updateTheme_nav_fields:
  "location_path (updateTheme h s) = location_path s \<and>
   nav_links (updateTheme h s) = nav_links s \<and>
   unload_listener (updateTheme h s) = unload_listener s \<and>
   has_toggle (updateTheme h s) = has_toggle s"
  by (simp add: updateTheme_def updateThemeLabel_def applyTheme_def Let_def split: option.split)

lemma subscribe_nav_fields:
  "location_path (subscribe h s) = location_path s \<and>
   nav_links (subscribe h s) = nav_links s \<and>
   unload_listener (subscribe h s) = unload_listener s"
  by (simp add: subscribe_def Let_def split: option.split listener_support.split)

lemma schedulePhaseUpdate_nav_fields:
  "location_path (schedulePhaseUpdate h s) = location_path s \<and>
   nav_links (schedulePhaseUpdate h s) = nav_links s \<and>
   unload_listener (schedulePhaseUpdate h s) = unload_listener s"
  by (simp add: schedulePhaseUpdate_def setTimeout_def clearCurrent_def clearTimeout_def Let_def
      split: option.split)

lemma setActiveNavigation_flags:
  "uncaught (setActiveNavigation s) = snd (markLinks (location_path s) (nav_links s)) \<and>
   unload_listener (setActiveNavigation s) = unload_listener s"
  by (simp add: setActiveNavigation_def split: prod.split)

lemma initializeTheme_flags:
  "uncaught (initializeTheme h s) = snd (markLinks (location_path s) (nav_links s)) \<and>
   unload_listener (initializeTheme h s) = unload_listener s"
proof -
  define s2 where "s2 = (if has_toggle (updateTheme h s)
    then (updateTheme h s)\<lparr>click_listener := True\<rparr> else updateTheme h s)"
  define s4 where "s4 = schedulePhaseUpdate h (subscribe h s2)"
  have f2: "location_path s2 = location_path s \<and> nav_links s2 = nav_links s \<and>
      unload_listener s2 = unload_listener s"
    using updateTheme_nav_fields [of h s] by (simp add: s2_def)
  have f4: "location_path s4 = location_path s \<and> nav_links s4 = nav_links s \<and>
      unload_listener s4 = unload_listener s"
    using f2 subscribe_nav_fields [of h s2] schedulePhaseUpdate_nav_fields [of h "subscribe h s2"]
    by (simp add: s4_def)
  have e: "initializeTheme h s = setActiveNavigation s4"
    by (simp add: initializeTheme_def Let_def s2_def s4_def)
  show ?thesis
    unfolding e using setActiveNavigation_flags [of s4] f4 by simp
qed

lemma delay_at_two: "getTimeUntilNextPhase (host_at 50400000 b q\<lparr>loading := l\<rparr>) = 7200000"
proof -
  have "nextBoundary 14 = 16"
    by (simp add: nextBoundary_cases)
  then have "phaseDiff (host_at 50400000 b q\<lparr>loading := l\<rparr>) = 7200000"
    by (simp add: phaseDiff_def host_at_def LocalTime_def UTC_def getHours_def
        setHours_def addDay_def js_rem_def MS_PER_HOUR_def MS_PER_DAY_def)
  then show ?thesis
    by (simp add: getTimeUntilNextPhase_def)
qed

text \<open>
  Claim C8 holds of the scheduler except for the teardown on one path. The script
  loaded into a document that is no longer loading calls \<^verbatim>\<open>initializeTheme\<close> before it
  registers the \<^verbatim>\<open>beforeunload\<close> listener. On a page whose navigation link has an address
  that \<^verbatim>\<open>new URL\<close> rejects, that call arms the timer and then throws; the listener is
  never registered, and when the page unloads the timer is still pending. The same page
  in a document that is still loading gets the listener first, and there the unload
  leaves no timer pending.
\<close>

theorem teardown_not_registered:
  "fresh broken_nav_page \<and>
   reachable (runScript (host_at 50400000 Available None) broken_nav_page) \<and>
   uncaught (runScript (host_at 50400000 Available None) broken_nav_page) = Some TypeError \<and>
   \<not> unload_listener (runScript (host_at 50400000 Available None) broken_nav_page) \<and>
   timers (runScript (host_at 50400000 Available None) broken_nav_page) = [(1, 7200000)] \<and>
   timers (dispatch (host_at 50400000 Available None) BeforeUnload
     (runScript (host_at 50400000 Available None) broken_nav_page)) = [(1, 7200000)] \<and>
   unload_listener (dispatch (host_at 50400000 Available None\<lparr>loading := True\<rparr>) DOMContentLoaded
     (runScript (host_at 50400000 Available None\<lparr>loading := True\<rparr>) broken_nav_page)) \<and>
   uncaught (dispatch (host_at 50400000 Available None\<lparr>loading := True\<rparr>) DOMContentLoaded
     (runScript (host_at 50400000 Available None\<lparr>loading := True\<rparr>) broken_nav_page)) =
     Some TypeError \<and>
   timers (dispatch (host_at 50400000 Available None\<lparr>loading := True\<rparr>) DOMContentLoaded
     (runScript (host_at 50400000 Available None\<lparr>loading := True\<rparr>) broken_nav_page)) =
     [(1, 7200000)] \<and>
   timers (dispatch (host_at 50400000 Available None\<lparr>loading := True\<rparr>) BeforeUnload
     (dispatch (host_at 50400000 Available None\<lparr>loading := True\<rparr>) DOMContentLoaded
       (runScript (host_at 50400000 Available None\<lparr>loading := True\<rparr>) broken_nav_page))) = []"
proof -
  define h0 where "h0 = host_at 50400000 Available None"
  define hl where "hl = host_at 50400000 Available None\<lparr>loading := True\<rparr>"
  define s0 where "s0 = initializeTheme h0 broken_nav_page"
  define p1 where "p1 = broken_nav_page\<lparr>dcl_listener := True, unload_listener := True\<rparr>"
  define s1 where "s1 = initializeTheme hl (p1\<lparr>dcl_listener := False\<rparr>)"
  have f: "fresh broken_nav_page"
    by (simp add: fresh_def broken_nav_page_def blank_page_def)
  have l0: "\<not> loading h0" and l1: "loading hl"
    by (simp_all add: h0_def hl_def host_at_def)
  have g0: "getTimeUntilNextPhase h0 = 7200000"
    using delay_at_two [where b = Available and q = None and l = False]
    by (simp add: h0_def host_at_def)
  have g1: "getTimeUntilNextPhase hl = 7200000"
    unfolding hl_def by (rule delay_at_two)
  have u0: "uncaught s0 = Some TypeError \<and> \<not> unload_listener s0"
    using initializeTheme_flags [of h0 broken_nav_page]
    by (simp add: s0_def broken_nav_page_def blank_page_def)
  have t0: "timers s0 = [(1, 7200000)]"
    using initializeTheme_arms [OF fresh_inv [OF f], of h0] g0
    by (simp add: s0_def broken_nav_page_def blank_page_def)
  have r0: "runScript h0 broken_nav_page = s0"
    using l0 u0 by (simp add: runScript_def s0_def Let_def)
  have r1: "runScript hl broken_nav_page = p1"
    using l1 by (simp add: runScript_def p1_def)
  have d1: "dispatch hl DOMContentLoaded p1 = s1"
    by (simp add: s1_def p1_def)
  have i1: "timer_inv (p1\<lparr>dcl_listener := False\<rparr>)"
    using fresh_inv [OF f] by (simp add: p1_def timer_inv_def)
  have u1: "uncaught s1 = Some TypeError \<and> unload_listener s1"
    using initializeTheme_flags [of hl "p1\<lparr>dcl_listener := False\<rparr>"]
    by (simp add: s1_def p1_def broken_nav_page_def blank_page_def)
  have t1: "timers s1 = [(1, 7200000)]"
    using initializeTheme_arms [OF i1, of hl] g1
    by (simp add: s1_def p1_def broken_nav_page_def blank_page_def)
  have v1: "timer_inv s1"
    unfolding s1_def using i1 by (rule initializeTheme_inv)
  have x1: "timers (dispatch hl BeforeUnload s1) = []"
    using beforeUnload_disarms [OF v1, of hl] u1 by simp
  have x0: "timers (dispatch h0 BeforeUnload s0) = [(1, 7200000)]"
    using u0 t0 by simp
  have re: "reachable (runScript h0 broken_nav_page)"
    using f by (rule reachable.init)
  show ?thesis
    unfolding hl_def [symmetric] unfolding h0_def [symmetric]
    using f re u0 t0 x0 u1 t1 x1 unfolding r0 r1 d1 by blast
qed

end
